theory Spec2Isabelle
  imports Main "HOL-Library.Sublist"
begin

section \<open>User Data Fetcher: the script and its display state\<close>

text \<open>
  The development follows \<^verbatim>\<open>src/user-data-fetcher/script.js\<close>. The script holds four
  page elements, fetches a list of users over HTTP, and writes cards, an error banner and
  a loading indicator into the page. Each JavaScript function becomes a HOL function on
  an explicit display state; a function that can throw returns its outcome as a sum
  (\<open>Inl\<close> the thrown error) together with the state it leaves behind.
\<close>

subsection \<open>Values and errors\<close>

text \<open>
  The value of \<^verbatim>\<open>response.json()\<close> is any JSON value, and \<^verbatim>\<open>SAMPLE_USERS\<close> is a
  literal of the same shape. Reading a missing property gives \<^verbatim>\<open>undefined\<close>.

  A number is represented by the text \<^verbatim>\<open>String(x)\<close> gives for it: the script observes a
  number only through that text (in a template literal), through truthiness and through
  \<^verbatim>\<open>=== 0\<close>, and both zeros print as \<^verbatim>\<open>0\<close>. An object is the list of its own
  properties, looked up by key.
\<close>

datatype js_value =
    JUndefined
  | JNull
  | JBool bool
  | JNumber string
  | JString string
  | JArray "js_value list"
  | JObject "(string \<times> js_value) list"

text \<open>
  A thrown value: the errors the script meets are \<^verbatim>\<open>Error\<close> objects, read only through
  \<^verbatim>\<open>error.message\<close>. The message of an error raised by the engine itself differs
  between engines (the texts used here are those of V8); the script never reads those, it
  only logs them.
\<close>

datatype js_error =
    Error string
  | TypeError string
  | SyntaxError string

fun message :: "js_error \<Rightarrow> string" where
  "message (Error m) = m"
| "message (TypeError m) = m"
| "message (SyntaxError m) = m"

text \<open>Sequencing of steps that can throw: the first error ends the evaluation.\<close>

fun and_then :: "js_error + 'a \<Rightarrow> ('a \<Rightarrow> js_error + 'b) \<Rightarrow> js_error + 'b" where
  "and_then (Inl e) f = Inl e"
| "and_then (Inr x) f = f x"

text \<open>\<^verbatim>\<open>ToBoolean\<close>, as \<^verbatim>\<open>!users\<close> applies it.\<close>

fun truthy :: "js_value \<Rightarrow> bool" where
  "truthy JUndefined = False"
| "truthy JNull = False"
| "truthy (JBool b) = b"
| "truthy (JNumber t) = (t \<noteq> ''0'' \<and> t \<noteq> ''NaN'')"
| "truthy (JString s) = (s \<noteq> [])"
| "truthy (JArray xs) = True"
| "truthy (JObject kvs) = True"

text \<open>Decimal text of a natural number, as a template literal prints an integer.\<close>

fun decimal :: "nat \<Rightarrow> string" where
  "decimal n =
     (if n < 10 then [''0123456789'' ! n]
      else decimal (n div 10) @ [''0123456789'' ! (n mod 10)])"

declare decimal.simps [simp del]

text \<open>
  The property read \<^verbatim>\<open>v.k\<close>, for the data properties the script reads
  (\<^verbatim>\<open>name\<close>, \<^verbatim>\<open>email\<close>, \<^verbatim>\<open>address\<close>, \<^verbatim>\<open>city\<close>, \<^verbatim>\<open>length\<close>). None of them is
  inherited from a prototype, so an object answers from its own properties, an array and
  a string answer only \<^verbatim>\<open>length\<close>, and a number or a boolean answers nothing.
  Reading a property of \<^verbatim>\<open>null\<close> or \<^verbatim>\<open>undefined\<close> throws. The only length the
  script reads is compared with zero, which does not depend on the unit a string's
  length is counted in.
\<close>

fun get :: "js_value \<Rightarrow> string \<Rightarrow> js_error + js_value" where
  "get JUndefined k =
     Inl (TypeError (''Cannot read properties of undefined (reading '' @ [CHR 0x27] @ k @ [CHR 0x27] @ '')''))"
| "get JNull k =
     Inl (TypeError (''Cannot read properties of null (reading '' @ [CHR 0x27] @ k @ [CHR 0x27] @ '')''))"
| "get (JObject kvs) k = Inr (case map_of kvs k of Some v \<Rightarrow> v | None \<Rightarrow> JUndefined)"
| "get (JArray xs) k = Inr (if k = ''length'' then JNumber (decimal (length xs)) else JUndefined)"
| "get (JString s) k = Inr (if k = ''length'' then JNumber (decimal (length s)) else JUndefined)"
| "get (JBool b) k = Inr JUndefined"
| "get (JNumber t) k = Inr JUndefined"

text \<open>Joining texts with a separator, as \<^verbatim>\<open>Array.prototype.join\<close> does.\<close>

fun join :: "string \<Rightarrow> string list \<Rightarrow> string" where
  "join sep [] = []"
| "join sep [x] = x"
| "join sep (x # y # ys) = x @ sep @ join sep (y # ys)"

text \<open>Running a list of steps in order, stopping at the first that throws.\<close>

fun collect :: "(js_error + 'a) list \<Rightarrow> js_error + 'a list" where
  "collect [] = Inr []"
| "collect (Inl e # rs) = Inl e"
| "collect (Inr x # rs) = and_then (collect rs) (\<lambda>xs. Inr (x # xs))"

text \<open>
  \<^verbatim>\<open>ToString\<close>, as a template literal applies it to each substitution. An array prints
  its elements joined by commas, with \<^verbatim>\<open>null\<close> and \<^verbatim>\<open>undefined\<close> printed empty. A
  plain object prints as \<^verbatim>\<open>[object Object]\<close>, unless it has an own property
  \<^verbatim>\<open>toString\<close>: a parsed value is never callable, so the conversion to a primitive
  finds no usable method and throws.
\<close>

fun to_string :: "js_value \<Rightarrow> js_error + string" where
  "to_string JUndefined = Inr ''undefined''"
| "to_string JNull = Inr ''null''"
| "to_string (JBool b) = Inr (if b then ''true'' else ''false'')"
| "to_string (JNumber t) = Inr t"
| "to_string (JString s) = Inr s"
| "to_string (JArray xs) =
     and_then
       (collect (map (\<lambda>x. if x = JUndefined \<or> x = JNull then Inr [] else to_string x) xs))
       (\<lambda>parts. Inr (join '','' parts))"
| "to_string (JObject kvs) =
     (if ''toString'' \<in> fst ` set kvs
      then Inl (TypeError ''Cannot convert object to primitive value'')
      else Inr ''[object Object]'')"

subsection \<open>The page elements\<close>

text \<open>
  The display state holds what the script reads and writes of its elements: the class
  lists of \<^verbatim>\<open>loadingElement\<close> and \<^verbatim>\<open>errorMessageElement\<close>, the text of
  \<^verbatim>\<open>errorMessageElement\<close>, the markup assigned to \<^verbatim>\<open>usersContainer\<close>, and the
  entries written with \<^verbatim>\<open>console.error\<close>. The four elements are taken to exist in the
  page. A class list is a set of tokens; an element is shown when the token
  \<^verbatim>\<open>hidden\<close> is absent.
\<close>

record dom =
  loading_classList :: "string set"
  errorMessage_classList :: "string set"
  errorMessage_textContent :: string
  usersContainer_innerHTML :: string
  console :: "(string \<times> js_error) list"

definition loading_visible :: "dom \<Rightarrow> bool" where
  "loading_visible s = (''hidden'' \<notin> loading_classList s)"

definition error_visible :: "dom \<Rightarrow> bool" where
  "error_visible s = (''hidden'' \<notin> errorMessage_classList s)"

text \<open>What the page shows: cards, error banner, loading indicator.\<close>

definition rendered :: "dom \<Rightarrow> string set \<times> string set \<times> string \<times> string" where
  "rendered s =
     (loading_classList s, errorMessage_classList s,
      errorMessage_textContent s, usersContainer_innerHTML s)"

definition console_error :: "string \<Rightarrow> js_error \<Rightarrow> dom \<Rightarrow> dom" where
  "console_error label e s = s\<lparr>console := console s @ [(label, e)]\<rparr>"

subsection \<open>The fallback data\<close>

definition SAMPLE_USERS :: js_value where
  "SAMPLE_USERS = JArray
     [JObject [(''id'', JNumber ''1''), (''name'', JString ''Leanne Graham''),
               (''email'', JString ''Sincere@april.biz''),
               (''address'', JObject [(''city'', JString ''Gwenborough'')])],
      JObject [(''id'', JNumber ''2''), (''name'', JString ''Ervin Howell''),
               (''email'', JString ''Shanna@melissa.tv''),
               (''address'', JObject [(''city'', JString ''Wisokyburgh'')])],
      JObject [(''id'', JNumber ''3''), (''name'', JString ''Clementine Bauch''),
               (''email'', JString ''Nathan@yesenia.net''),
               (''address'', JObject [(''city'', JString ''McKenziehaven'')])]]"

subsection \<open>Loading indicator and error banner\<close>

definition showLoading :: "dom \<Rightarrow> dom" where
  "showLoading s =
     s\<lparr>loading_classList := loading_classList s - {''hidden''},
       errorMessage_classList := insert ''hidden'' (errorMessage_classList s),
       usersContainer_innerHTML := []\<rparr>"

definition hideLoading :: "dom \<Rightarrow> dom" where
  "hideLoading s = s\<lparr>loading_classList := insert ''hidden'' (loading_classList s)\<rparr>"

definition displayError :: "string \<Rightarrow> dom \<Rightarrow> dom" where
  "displayError msg s =
     (let s1 = hideLoading s;
          s2 = s1\<lparr>errorMessage_textContent := msg\<rparr>
      in s2\<lparr>errorMessage_classList := errorMessage_classList s2 - {''hidden''}\<rparr>)"

definition clearError :: "dom \<Rightarrow> dom" where
  "clearError s =
     (let s1 = s\<lparr>errorMessage_classList := insert ''hidden'' (errorMessage_classList s)\<rparr>
      in s1\<lparr>errorMessage_textContent := []\<rparr>)"

subsection \<open>Cards\<close>

text \<open>The fixed text of the template literal in \<^verbatim>\<open>createUserCard\<close>, around its three substitutions.\<close>

definition card_template :: "string \<Rightarrow> string \<Rightarrow> string \<Rightarrow> string" where
  \<open>card_template n e c =
     ''\<newline>        <div class="user-card">\<newline>            <h3 class="user-name">'' @ n @
     ''</h3>\<newline>            <ul class="user-details">\<newline>                <li>\<newline>                    <strong>Email:</strong> '' @ e @
     ''\<newline>                </li>\<newline>                <li>\<newline>                    <strong>City:</strong> '' @ c @
     ''\<newline>                </li>\<newline>            </ul>\<newline>        </div>\<newline>    ''\<close>

text \<open>
  \<^verbatim>\<open>createUserCard(user)\<close>: the substitutions are evaluated and converted to text from
  left to right, and the first read or conversion that throws ends the call.
\<close>

definition createUserCard :: "js_value \<Rightarrow> js_error + string" where
  "createUserCard user =
     and_then (get user ''name'') (\<lambda>name.
     and_then (to_string name) (\<lambda>n.
     and_then (get user ''email'') (\<lambda>email.
     and_then (to_string email) (\<lambda>e.
     and_then (get user ''address'') (\<lambda>address.
     and_then (get address ''city'') (\<lambda>city.
     and_then (to_string city) (\<lambda>c.
     Inr (card_template n e c))))))))"

text \<open>
  \<^verbatim>\<open>displayUsers(users)\<close>. The guard \<^verbatim>\<open>!users || users.length === 0\<close> reads the length
  only of a truthy value. \<^verbatim>\<open>users.map\<close> is a function only when \<^verbatim>\<open>users\<close> is an
  array; on any other truthy value the call throws. The container is assigned after the
  whole array has been mapped, so a card that throws leaves the container as it was.
\<close>

definition displayUsers :: "js_value \<Rightarrow> dom \<Rightarrow> (js_error + unit) \<times> dom" where
  "displayUsers users s =
     (let s1 = hideLoading s;
          s2 = clearError s1
      in if \<not> truthy users then (Inr (), displayError ''No users found.'' s2)
         else (case get users ''length'' of
           Inl err \<Rightarrow> (Inl err, s2)
         | Inr len \<Rightarrow>
             if len = JNumber ''0'' then (Inr (), displayError ''No users found.'' s2)
             else (case users of
               JArray xs \<Rightarrow>
                 (case collect (map createUserCard xs) of
                    Inl err \<Rightarrow> (Inl err, s2)
                  | Inr cards \<Rightarrow>
                      (Inr (), s2\<lparr>usersContainer_innerHTML := join [] cards\<rparr>))
             | _ \<Rightarrow> (Inl (TypeError ''users.map is not a function''), s2))))"

subsection \<open>The endpoint\<close>

text \<open>
  What the script sees of an HTTP response: its status code and what \<^verbatim>\<open>response.json()\<close>
  settles to, the parsed body or the error of a body that does not parse.
  \<^verbatim>\<open>response.ok\<close> is true exactly for the status codes 200 to 299.

  The network is the function \<open>fetch\<close> the script is run with: \<^verbatim>\<open>await fetch(url)\<close> either
  throws (the request could not complete) or gives a response.
\<close>

record response =
  status :: nat
  json :: "js_error + js_value"

definition ok :: "response \<Rightarrow> bool" where
  "ok r = (200 \<le> status r \<and> status r \<le> 299)"

definition API_URL :: string where
  "API_URL = ''https://jsonplaceholder.typicode.com/users''"

subsection \<open>Fetching\<close>

text \<open>The body of the \<^verbatim>\<open>try\<close> block of \<^verbatim>\<open>fetchUsers\<close>.\<close>

definition fetchUsers_try :: "(string \<Rightarrow> js_error + response) \<Rightarrow> dom \<Rightarrow> (js_error + js_value) \<times> dom" where
  "fetchUsers_try fetch s =
     (let s1 = showLoading s
      in case fetch API_URL of
           Inl err \<Rightarrow> (Inl err, s1)
         | Inr response \<Rightarrow>
             if \<not> ok response
             then (Inl (Error (''HTTP error! Status: '' @ decimal (status response))), s1)
             else (case json response of
                    Inl err \<Rightarrow> (Inl err, s1)
                  | Inr users \<Rightarrow> (Inr users, s1)))"

text \<open>\<^verbatim>\<open>fetchUsers()\<close>: the \<^verbatim>\<open>try\<close> block with its \<^verbatim>\<open>catch\<close> handler.\<close>

definition fetchUsers :: "(string \<Rightarrow> js_error + response) \<Rightarrow> dom \<Rightarrow> (js_error + js_value) \<times> dom" where
  "fetchUsers fetch s =
     (case fetchUsers_try fetch s of
        (Inr users, s1) \<Rightarrow> (Inr users, s1)
      | (Inl error, s1) \<Rightarrow>
          (let s2 = console_error ''Error fetching users:'' error s1;
               s3 = displayError
                      (''Failed to fetch users: '' @ message error @ ''. Showing sample data.'') s2
           in (Inr SAMPLE_USERS, s3)))"

subsection \<open>The click handler\<close>

text \<open>The body of the \<^verbatim>\<open>try\<close> block of \<^verbatim>\<open>handleFetchUsers\<close>.\<close>

definition handleFetchUsers_try :: "(string \<Rightarrow> js_error + response) \<Rightarrow> dom \<Rightarrow> (js_error + unit) \<times> dom" where
  "handleFetchUsers_try fetch s =
     (case fetchUsers fetch s of
        (Inl err, s1) \<Rightarrow> (Inl err, s1)
      | (Inr users, s1) \<Rightarrow> displayUsers users s1)"

text \<open>\<^verbatim>\<open>handleFetchUsers()\<close>: the \<^verbatim>\<open>try\<close> block with its \<^verbatim>\<open>catch\<close> handler.\<close>

definition handleFetchUsers :: "(string \<Rightarrow> js_error + response) \<Rightarrow> dom \<Rightarrow> (js_error + unit) \<times> dom" where
  "handleFetchUsers fetch s =
     (case handleFetchUsers_try fetch s of
        (Inr u, s1) \<Rightarrow> (Inr u, s1)
      | (Inl error, s1) \<Rightarrow>
          (let s2 = console_error ''Unexpected error:'' error s1
           in (Inr (), displayError ''An unexpected error occurred. Please try again.'' s2)))"

subsection \<open>Cards in a piece of markup\<close>

text \<open>
  A card is recognised in markup by its opening tag, the one \<^verbatim>\<open>createUserCard\<close> writes:
  \<open>count_cards\<close> is the number of places where that tag begins.
\<close>

definition card_open :: string where
  \<open>card_open = ''<div class="user-card">''\<close>

fun count_cards :: "string \<Rightarrow> nat" where
  "count_cards [] = 0"
| "count_cards (x # xs) = (if prefix card_open (x # xs) then 1 else 0) + count_cards xs"

subsection \<open>Well-formed users and example inputs\<close>

text \<open>
  A user record as the endpoint documents it: \<open>user_fields u (n, e, c)\<close> says that the
  value \<open>u\<close> answers \<^verbatim>\<open>name\<close>, \<^verbatim>\<open>email\<close> and \<^verbatim>\<open>address.city\<close> with the strings
  \<open>n\<close>, \<open>e\<close> and \<open>c\<close>.
\<close>

definition user_fields :: "js_value \<Rightarrow> string \<times> string \<times> string \<Rightarrow> bool" where
  "user_fields u f =
     (case f of (n, e, c) \<Rightarrow>
        get u ''name'' = Inr (JString n) \<and> get u ''email'' = Inr (JString e) \<and>
        (case get u ''address'' of Inl err \<Rightarrow> False | Inr a \<Rightarrow> get a ''city'' = Inr (JString c)))"

text \<open>A page as it is before the first click, and an endpoint that answers every request alike.\<close>

definition example_page :: dom where
  "example_page =
     \<lparr>loading_classList = {''hidden''}, errorMessage_classList = {''hidden''},
      errorMessage_textContent = [], usersContainer_innerHTML = [], console = []\<rparr>"

definition responds :: "nat \<Rightarrow> js_error + js_value \<Rightarrow> string \<Rightarrow> js_error + response" where
  "responds st body url = Inr \<lparr>status = st, json = body\<rparr>"

definition example_user :: "string \<Rightarrow> string \<Rightarrow> string \<Rightarrow> js_value" where
  "example_user n e c =
     JObject [(''id'', JNumber ''1''), (''name'', JString n), (''email'', JString e),
              (''address'', JObject [(''city'', JString c)])]"

text \<open>
  A city name that carries markup: the rest of a card after its city, and then a second
  card up to its city.
\<close>

definition markup_city :: string where
  \<open>markup_city =
     ''C\<newline>                </li>\<newline>            </ul>\<newline>        </div>\<newline>    \<newline>        <div class="user-card">\<newline>            <h3 class="user-name">B</h3>\<newline>            <ul class="user-details">\<newline>                <li>\<newline>                    <strong>Email:</strong> b@y.org\<newline>                </li>\<newline>                <li>\<newline>                    <strong>City:</strong> D''\<close>

section \<open>Properties\<close>

subsection \<open>Auxiliary facts\<close>

lemma decimal_not_Nil: "decimal n \<noteq> []"
  by (subst decimal.simps) simp

lemma decimal_eq_0: "decimal n = ''0'' \<longleftrightarrow> n = 0"
proof
  assume h: "decimal n = ''0''"
  show "n = 0"
  proof (cases "n < 10")
    case True
    then have "n \<in> {0,1,2,3,4,5,6,7,8,9}" by auto
    with h show ?thesis by (auto simp: decimal.simps)
  next
    case False
    with h have "decimal (n div 10) @ [''0123456789'' ! (n mod 10)] = ''0''"
      by (subst (asm) decimal.simps) simp
    then have "decimal (n div 10) = []" by simp
    with decimal_not_Nil show ?thesis by blast
  qed
next
  assume "n = 0"
  then show "decimal n = ''0''" by (simp add: decimal.simps)
qed

lemma join_Nil: "join [] xs = concat xs"
  by (induction xs rule: induct_list012) auto

lemma user_fields_example [simp]: "user_fields (example_user n e c) (n, e, c)"
  by (simp add: user_fields_def example_user_def)

lemma createUserCard_fields:
  "user_fields u (n, e, c) \<Longrightarrow> createUserCard u = Inr (card_template n e c)"
  by (auto simp: user_fields_def createUserCard_def split: sum.splits)

lemma collect_cards:
  "list_all2 user_fields xs fs \<Longrightarrow>
   collect (map createUserCard xs) = Inr (map (\<lambda>(n, e, c). card_template n e c) fs)"
proof (induction xs fs rule: list_all2_induct)
  case Nil
  show ?case by simp
next
  case (Cons u xs f fs)
  obtain n e c where f: "f = (n, e, c)" by (cases f)
  from Cons.hyps(1) f have "createUserCard u = Inr (card_template n e c)"
    by (simp add: createUserCard_fields)
  with Cons.IH f show ?case by simp
qed

lemma card_template_sublists:
  "sublist n (card_template n e c)"
  "sublist e (card_template n e c)"
  "sublist c (card_template n e c)"
proof -
  show "sublist n (card_template n e c)"
    unfolding card_template_def by (rule sublist_appendI)
  have "\<exists>ps ss. card_template n e c = ps @ e @ ss"
    unfolding card_template_def by (metis append.assoc)
  then show "sublist e (card_template n e c)" by (simp add: sublist_def)
  have "\<exists>ps ss. card_template n e c = ps @ c @ ss"
    unfolding card_template_def by (metis append.assoc)
  then show "sublist c (card_template n e c)" by (simp add: sublist_def)
qed

lemma displayUsers_nonempty_array:
  "xs \<noteq> [] \<Longrightarrow> displayUsers (JArray xs) s =
     (case collect (map createUserCard xs) of
        Inl err \<Rightarrow> (Inl err, clearError (hideLoading s))
      | Inr cards \<Rightarrow>
          (Inr (), (clearError (hideLoading s))\<lparr>usersContainer_innerHTML := concat cards\<rparr>))"
  by (simp add: displayUsers_def Let_def decimal_eq_0 join_Nil split: sum.splits)

lemma displayUsers_SAMPLE_USERS:
  "displayUsers SAMPLE_USERS s =
     (Inr (), (clearError (hideLoading s))
        \<lparr>usersContainer_innerHTML :=
           card_template ''Leanne Graham'' ''Sincere@april.biz'' ''Gwenborough'' @
           card_template ''Ervin Howell'' ''Shanna@melissa.tv'' ''Wisokyburgh'' @
           card_template ''Clementine Bauch'' ''Nathan@yesenia.net'' ''McKenziehaven''\<rparr>)"
  by (simp add: SAMPLE_USERS_def displayUsers_nonempty_array createUserCard_def)

text \<open>The three ways displayUsers can end; which one depends on the value only.\<close>

lemma displayUsers_shape:
  "(\<forall>s. displayUsers users s = (Inr (), displayError ''No users found.'' (clearError (hideLoading s))))
   \<or> (\<exists>err. \<forall>s. displayUsers users s = (Inl err, clearError (hideLoading s)))
   \<or> (\<exists>html. \<forall>s. displayUsers users s =
          (Inr (), (clearError (hideLoading s))\<lparr>usersContainer_innerHTML := html\<rparr>))"
  by (auto simp: displayUsers_def Let_def split: sum.splits js_value.splits)

lemma fetchUsers_try_state: "snd (fetchUsers_try fetch s) = showLoading s"
  by (simp add: fetchUsers_try_def Let_def split: sum.splits)

lemma fetchUsers_try_result: "fst (fetchUsers_try fetch s) = fst (fetchUsers_try fetch s')"
  by (simp add: fetchUsers_try_def Let_def split: sum.splits)

lemma fetchUsers_catch:
  "fetchUsers_try fetch s = (Inl err, s1) \<Longrightarrow>
   fetchUsers fetch s =
     (Inr SAMPLE_USERS,
      displayError (''Failed to fetch users: '' @ message err @ ''. Showing sample data.'')
        (console_error ''Error fetching users:'' err s1))"
  by (simp add: fetchUsers_def Let_def)

lemma fetchUsers_pass:
  "fetchUsers_try fetch s = (Inr users, s1) \<Longrightarrow> fetchUsers fetch s = (Inr users, s1)"
  by (simp add: fetchUsers_def)

lemma fetchUsers_try_throws_iff:
  "(\<exists>err. fst (fetchUsers_try fetch s) = Inl err) \<longleftrightarrow>
     (\<exists>err. fetch API_URL = Inl err) \<or>
     (\<exists>r. fetch API_URL = Inr r \<and> (\<not> ok r \<or> (\<exists>err. json r = Inl err)))"
  by (auto simp: fetchUsers_try_def Let_def split: sum.splits)


lemma fetchUsers_try_failure:
  assumes "(\<exists>err. fetch API_URL = Inl err) \<or>
           (\<exists>r. fetch API_URL = Inr r \<and>
                (status r < 200 \<or> 299 < status r \<or> (\<exists>err. json r = Inl err)))"
  shows "\<exists>err. fetchUsers_try fetch s = (Inl err, showLoading s)"
  using assms by (auto simp: fetchUsers_try_def ok_def Let_def split: sum.splits)

lemma state_simps:
  "loading_classList (showLoading s) = loading_classList s - {''hidden''}"
  "errorMessage_classList (showLoading s) = insert ''hidden'' (errorMessage_classList s)"
  "errorMessage_textContent (showLoading s) = errorMessage_textContent s"
  "usersContainer_innerHTML (showLoading s) = []"
  "console (showLoading s) = console s"
  "loading_classList (hideLoading s) = insert ''hidden'' (loading_classList s)"
  "errorMessage_classList (hideLoading s) = errorMessage_classList s"
  "errorMessage_textContent (hideLoading s) = errorMessage_textContent s"
  "usersContainer_innerHTML (hideLoading s) = usersContainer_innerHTML s"
  "console (hideLoading s) = console s"
  "loading_classList (displayError m s) = insert ''hidden'' (loading_classList s)"
  "errorMessage_classList (displayError m s) = errorMessage_classList s - {''hidden''}"
  "errorMessage_textContent (displayError m s) = m"
  "usersContainer_innerHTML (displayError m s) = usersContainer_innerHTML s"
  "console (displayError m s) = console s"
  "loading_classList (clearError s) = loading_classList s"
  "errorMessage_classList (clearError s) = insert ''hidden'' (errorMessage_classList s)"
  "errorMessage_textContent (clearError s) = []"
  "usersContainer_innerHTML (clearError s) = usersContainer_innerHTML s"
  "console (clearError s) = console s"
  "loading_classList (console_error l e s) = loading_classList s"
  "errorMessage_classList (console_error l e s) = errorMessage_classList s"
  "errorMessage_textContent (console_error l e s) = errorMessage_textContent s"
  "usersContainer_innerHTML (console_error l e s) = usersContainer_innerHTML s"
  "console (console_error l e s) = console s @ [(l, e)]"
  by (simp_all add: showLoading_def hideLoading_def displayError_def clearError_def
        console_error_def Let_def)

lemma fetchUsers_try_eq: "fetchUsers_try fetch s = (fst (fetchUsers_try fetch s'), showLoading s)"
  using fetchUsers_try_state [of fetch s] fetchUsers_try_result [of fetch s s']
  by (simp add: prod_eq_iff)

lemma fetchUsers_returns: "\<exists>users. fst (fetchUsers fetch s) = Inr users"
  by (cases "fetchUsers_try fetch s" rule: prod.exhaust; cases "fst (fetchUsers_try fetch s)")
     (auto simp: fetchUsers_def Let_def)

lemma handleFetchUsers_returns: "fst (handleFetchUsers fetch s) = Inr ()"
  by (simp add: handleFetchUsers_def Let_def split: prod.splits sum.splits)

lemma handleFetchUsers_catch:
  "handleFetchUsers_try fetch s = (Inl err, s1) \<Longrightarrow>
   handleFetchUsers fetch s =
     (Inr (), displayError ''An unexpected error occurred. Please try again.''
                (console_error ''Unexpected error:'' err s1))"
  by (simp add: handleFetchUsers_def Let_def)

lemma handleFetchUsers_pass:
  "handleFetchUsers_try fetch s = (Inr u, s1) \<Longrightarrow> handleFetchUsers fetch s = (Inr (), s1)"
  by (simp add: handleFetchUsers_def)

lemma handleFetchUsers_rendered:
  "\<exists>vis t h. \<forall>s. rendered (snd (handleFetchUsers fetch s)) =
     (insert ''hidden'' (loading_classList s),
      (if vis then errorMessage_classList s - {''hidden''}
       else insert ''hidden'' (errorMessage_classList s)),
      t, h)"
proof -
  define r where "r = fst (fetchUsers_try fetch example_page)"
  have t: "fetchUsers_try fetch s = (r, showLoading s)" for s
    unfolding r_def by (rule fetchUsers_try_eq)
  show ?thesis
  proof (cases r)
    case (Inl err)
    have "handleFetchUsers fetch s =
            (Inr (), (clearError (hideLoading
               (displayError (''Failed to fetch users: '' @ message err @ ''. Showing sample data.'')
                  (console_error ''Error fetching users:'' err (showLoading s)))))
               \<lparr>usersContainer_innerHTML :=
                  card_template ''Leanne Graham'' ''Sincere@april.biz'' ''Gwenborough'' @
                  card_template ''Ervin Howell'' ''Shanna@melissa.tv'' ''Wisokyburgh'' @
                  card_template ''Clementine Bauch'' ''Nathan@yesenia.net'' ''McKenziehaven''\<rparr>)" for s
      using t [of s] unfolding Inl
      by (simp add: handleFetchUsers_def handleFetchUsers_try_def fetchUsers_catch
            displayUsers_SAMPLE_USERS)
    then show ?thesis
      by (intro exI [of _ False] exI [of _ "[]"]
            exI [of _ "card_template ''Leanne Graham'' ''Sincere@april.biz'' ''Gwenborough'' @
                  card_template ''Ervin Howell'' ''Shanna@melissa.tv'' ''Wisokyburgh'' @
                  card_template ''Clementine Bauch'' ''Nathan@yesenia.net'' ''McKenziehaven''"])
         (simp add: rendered_def state_simps)
  next
    case (Inr users)
    have f: "fetchUsers fetch s = (Inr users, showLoading s)" for s
      using t [of s] unfolding Inr by (rule fetchUsers_pass)
    have tr: "handleFetchUsers_try fetch s = displayUsers users (showLoading s)" for s
      by (simp add: handleFetchUsers_try_def f)
    from displayUsers_shape [of users]
    consider
      (none) "\<forall>s. displayUsers users s =
                (Inr (), displayError ''No users found.'' (clearError (hideLoading s)))"
      | (throws) err where "\<forall>s. displayUsers users s = (Inl err, clearError (hideLoading s))"
      | (cards) html where "\<forall>s. displayUsers users s =
                (Inr (), (clearError (hideLoading s))\<lparr>usersContainer_innerHTML := html\<rparr>)"
      by blast
    then show ?thesis
    proof cases
      case none
      then have "handleFetchUsers fetch s =
          (Inr (), displayError ''No users found.'' (clearError (hideLoading (showLoading s))))" for s
        by (simp add: handleFetchUsers_def tr)
      then show ?thesis
        by (intro exI [of _ True] exI [of _ "''No users found.''"] exI [of _ "[]"])
           (simp add: rendered_def state_simps)
    next
      case throws
      then have "handleFetchUsers fetch s =
          (Inr (), displayError ''An unexpected error occurred. Please try again.''
                     (console_error ''Unexpected error:'' err
                        (clearError (hideLoading (showLoading s)))))" for s
        by (simp add: handleFetchUsers_def tr)
      then show ?thesis
        by (intro exI [of _ True]
              exI [of _ "''An unexpected error occurred. Please try again.''"] exI [of _ "[]"])
           (simp add: rendered_def state_simps)
    next
      case cards
      then have "handleFetchUsers fetch s =
          (Inr (), (clearError (hideLoading (showLoading s)))\<lparr>usersContainer_innerHTML := html\<rparr>)" for s
        by (simp add: handleFetchUsers_def tr)
      then show ?thesis
        by (intro exI [of _ False] exI [of _ "[]"] exI [of _ html])
           (simp add: rendered_def state_simps)
    qed
  qed
qed

lemma displayUsers_loading:
  "loading_classList (snd (displayUsers users s)) = insert ''hidden'' (loading_classList s)"
  using displayUsers_shape [of users] by (auto simp: state_simps)

lemma count_cards_skip: "CHR ''<'' \<notin> set xs \<Longrightarrow> count_cards (xs @ ys) = count_cards ys"
  by (induction xs) (auto simp: card_open_def)

lemma count_cards_card:
  assumes "CHR ''<'' \<notin> set n" and "CHR ''<'' \<notin> set e" and "CHR ''<'' \<notin> set c"
  shows "count_cards (card_template n e c @ ys) = Suc (count_cards ys)"
  using assms by (simp add: card_template_def card_open_def count_cards_skip)

lemma count_cards_concat:
  "\<forall>f \<in> set fs. case f of (n, e, c) \<Rightarrow>
      CHR ''<'' \<notin> set n \<and> CHR ''<'' \<notin> set e \<and> CHR ''<'' \<notin> set c \<Longrightarrow>
   count_cards (concat (map (\<lambda>(n, e, c). card_template n e c) fs)) = length fs"
  by (induction fs) (auto simp: count_cards_card)

lemma card_template_text:
  \<open>card_template n e c =
       ''\<newline>        <div class="user-card">\<newline>            <h3 class="user-name">'' @ n @
       ''</h3>\<newline>            <ul class="user-details">\<newline>                <li>\<newline>                    <strong>Email:</strong> '' @ e @
       ''\<newline>                </li>\<newline>                <li>\<newline>                    <strong>City:</strong> '' @ c @
       ''\<newline>                </li>\<newline>            </ul>\<newline>        </div>\<newline>    ''\<close>
  by (simp add: card_template_def)

lemma markup_city_card:
  "card_template ''A'' ''a@x.com'' markup_city =
   card_template ''A'' ''a@x.com'' ''C'' @ card_template ''B'' ''b@y.org'' ''D''"
  by (simp add: card_template_def markup_city_def)

lemma displayUsers_cards_in_order:
  assumes "xs \<noteq> []" and "list_all2 user_fields xs fs"
  shows \<open>let out = usersContainer_innerHTML (snd (displayUsers (JArray xs) s));
             card = (\<lambda>f. case f of (n, e, c) \<Rightarrow>
               card_template n e c)
         in displayUsers (JArray xs) s =
              (Inr (), (clearError (hideLoading s))\<lparr>usersContainer_innerHTML := concat (map card fs)\<rparr>)
            \<and> (\<forall>i < length xs. user_fields (xs ! i) (fs ! i)
                  \<and> (case fs ! i of (n, e, c) \<Rightarrow>
                        sublist n (card (fs ! i)) \<and> sublist e (card (fs ! i))
                        \<and> sublist c (card (fs ! i))))
            \<and> ((\<forall>f \<in> set fs. case f of (n, e, c) \<Rightarrow>
                   CHR ''<'' \<notin> set n \<and> CHR ''<'' \<notin> set e \<and> CHR ''<'' \<notin> set c) \<longrightarrow>
                 count_cards out = length xs
                 \<and> (\<forall>i < length xs. \<exists>pre post.
                       out = pre @ card (fs ! i) @ post \<and> count_cards pre = i))\<close>
proof -
  let ?card = "\<lambda>(n, e, c). card_template n e c"
  let ?out = "usersContainer_innerHTML (snd (displayUsers (JArray xs) s))"
  have d: "displayUsers (JArray xs) s =
             (Inr (), (clearError (hideLoading s))\<lparr>usersContainer_innerHTML := concat (map ?card fs)\<rparr>)"
    using assms by (simp add: displayUsers_nonempty_array collect_cards)
  then have out: "?out = concat (map ?card fs)" by simp
  from assms(2) have len: "length xs = length fs" by (rule list_all2_lengthD)
  have v: "user_fields (xs ! i) (fs ! i)
           \<and> (case fs ! i of (n, e, c) \<Rightarrow>
                 sublist n (?card (fs ! i)) \<and> sublist e (?card (fs ! i)) \<and> sublist c (?card (fs ! i)))"
    if "i < length xs" for i
    using that assms(2) by (simp add: list_all2_nthD card_template_sublists split: prod.splits)
  have c: "count_cards ?out = length xs
           \<and> (\<forall>i < length xs. \<exists>pre post. ?out = pre @ ?card (fs ! i) @ post \<and> count_cards pre = i)"
    if clean: "\<forall>f \<in> set fs. case f of (n, e, c) \<Rightarrow>
                 CHR ''<'' \<notin> set n \<and> CHR ''<'' \<notin> set e \<and> CHR ''<'' \<notin> set c"
  proof (intro conjI allI impI)
    show "count_cards ?out = length xs"
      using clean by (simp add: out len count_cards_concat)
    fix i assume i: "i < length xs"
    from i len have e: "take i fs @ fs ! i # drop (Suc i) fs = fs"
      by (intro id_take_nth_drop [symmetric]) simp
    have "concat (map ?card (take i fs @ fs ! i # drop (Suc i) fs)) =
            concat (map ?card (take i fs)) @ ?card (fs ! i) @ concat (map ?card (drop (Suc i) fs))"
      by simp
    then have "concat (map ?card fs) =
                 concat (map ?card (take i fs)) @ ?card (fs ! i) @ concat (map ?card (drop (Suc i) fs))"
      unfolding e .
    moreover from clean have "\<forall>f \<in> set (take i fs). case f of (n, e, c) \<Rightarrow>
                 CHR ''<'' \<notin> set n \<and> CHR ''<'' \<notin> set e \<and> CHR ''<'' \<notin> set c"
      by (meson in_set_takeD)
    then have "count_cards (concat (map ?card (take i fs))) = i"
      using i len by (simp add: count_cards_concat)
    ultimately show "\<exists>pre post. ?out = pre @ ?card (fs ! i) @ post \<and> count_cards pre = i"
      unfolding out by blast
  qed
  from d v c show ?thesis by (simp add: Let_def)
qed

subsection \<open>Rendering users\<close>

text \<open>
  Claim C3, as amended. For every non-empty array of users whose \<^verbatim>\<open>name\<close>, \<^verbatim>\<open>email\<close> and
  \<^verbatim>\<open>address.city\<close> are strings, \<^verbatim>\<open>displayUsers\<close> returns normally and assigns to the
  container the concatenation, in the order of the array, of the card text of each
  element: the fixed template with the element's three strings put in as they are, so
  that each string occurs in its card verbatim. When none of the strings holds the
  character \<^verbatim>\<open><\<close>, the container holds exactly as many cards as the array has
  elements, and the card of the element at position \<open>i\<close> comes after exactly \<open>i\<close> cards.
\<close>

theorem displayUsers_one_card_per_user:
  assumes "xs \<noteq> []" and "list_all2 user_fields xs fs"
  shows \<open>let out = usersContainer_innerHTML (snd (displayUsers (JArray xs) s));
             card = (\<lambda>f. case f of (n, e, c) \<Rightarrow>
               ''\<newline>        <div class="user-card">\<newline>            <h3 class="user-name">'' @ n @
               ''</h3>\<newline>            <ul class="user-details">\<newline>                <li>\<newline>                    <strong>Email:</strong> '' @ e @
               ''\<newline>                </li>\<newline>                <li>\<newline>                    <strong>City:</strong> '' @ c @
               ''\<newline>                </li>\<newline>            </ul>\<newline>        </div>\<newline>    '')
         in displayUsers (JArray xs) s =
              (Inr (), (clearError (hideLoading s))\<lparr>usersContainer_innerHTML := concat (map card fs)\<rparr>)
            \<and> (\<forall>i < length xs. user_fields (xs ! i) (fs ! i)
                  \<and> (case fs ! i of (n, e, c) \<Rightarrow>
                        sublist n (card (fs ! i)) \<and> sublist e (card (fs ! i))
                        \<and> sublist c (card (fs ! i))))
            \<and> ((\<forall>f \<in> set fs. case f of (n, e, c) \<Rightarrow>
                   CHR ''<'' \<notin> set n \<and> CHR ''<'' \<notin> set e \<and> CHR ''<'' \<notin> set c) \<longrightarrow>
                 count_cards out = length xs
                 \<and> (\<forall>i < length xs. \<exists>pre post.
                       out = pre @ card (fs ! i) @ post \<and> count_cards pre = i))\<close>
  using displayUsers_cards_in_order [OF assms, of s] by (simp only: card_template_text)

theorem displayUsers_one_card_per_user_witness:
  \<open>[example_user ''A'' ''a@x.com'' ''C'', example_user ''B'' ''b@y.org'' ''D''] \<noteq> []
   \<and> list_all2 user_fields
        [example_user ''A'' ''a@x.com'' ''C'', example_user ''B'' ''b@y.org'' ''D'']
        [(''A'', ''a@x.com'', ''C''), (''B'', ''b@y.org'', ''D'')]
   \<and> usersContainer_innerHTML
        (snd (displayUsers (JArray [example_user ''A'' ''a@x.com'' ''C'', example_user ''B'' ''b@y.org'' ''D''])
                example_page)) =
       ''\<newline>        <div class="user-card">\<newline>            <h3 class="user-name">A</h3>\<newline>            <ul class="user-details">\<newline>                <li>\<newline>                    <strong>Email:</strong> a@x.com\<newline>                </li>\<newline>                <li>\<newline>                    <strong>City:</strong> C\<newline>                </li>\<newline>            </ul>\<newline>        </div>\<newline>    \<newline>        <div class="user-card">\<newline>            <h3 class="user-name">B</h3>\<newline>            <ul class="user-details">\<newline>                <li>\<newline>                    <strong>Email:</strong> b@y.org\<newline>                </li>\<newline>                <li>\<newline>                    <strong>City:</strong> D\<newline>                </li>\<newline>            </ul>\<newline>        </div>\<newline>    ''
   \<and> count_cards
        (usersContainer_innerHTML
        (snd (displayUsers (JArray [example_user ''A'' ''a@x.com'' ''C'', example_user ''B'' ''b@y.org'' ''D''])
                example_page))) = 2\<close>
proof -
  have h1: "[example_user ''A'' ''a@x.com'' ''C'', example_user ''B'' ''b@y.org'' ''D''] \<noteq> []"
    by simp
  have h2: "list_all2 user_fields
        [example_user ''A'' ''a@x.com'' ''C'', example_user ''B'' ''b@y.org'' ''D'']
        [(''A'', ''a@x.com'', ''C''), (''B'', ''b@y.org'', ''D'')]"
    by simp
  have h3: "\<forall>f \<in> set [(''A'', ''a@x.com'', ''C''), (''B'', ''b@y.org'', ''D'')].
              case f of (n, e, c) \<Rightarrow>
                CHR ''<'' \<notin> set n \<and> CHR ''<'' \<notin> set e \<and> CHR ''<'' \<notin> set c"
    by simp
  note w = displayUsers_one_card_per_user
    [where xs = "[example_user ''A'' ''a@x.com'' ''C'', example_user ''B'' ''b@y.org'' ''D'']"
       and fs = "[(''A'', ''a@x.com'', ''C''), (''B'', ''b@y.org'', ''D'')]" and s = example_page,
     OF h1 h2, unfolded Let_def]
  from w [THEN conjunct1] have out: \<open>usersContainer_innerHTML
        (snd (displayUsers (JArray [example_user ''A'' ''a@x.com'' ''C'', example_user ''B'' ''b@y.org'' ''D''])
                example_page)) =
       ''\<newline>        <div class="user-card">\<newline>            <h3 class="user-name">A</h3>\<newline>            <ul class="user-details">\<newline>                <li>\<newline>                    <strong>Email:</strong> a@x.com\<newline>                </li>\<newline>                <li>\<newline>                    <strong>City:</strong> C\<newline>                </li>\<newline>            </ul>\<newline>        </div>\<newline>    \<newline>        <div class="user-card">\<newline>            <h3 class="user-name">B</h3>\<newline>            <ul class="user-details">\<newline>                <li>\<newline>                    <strong>Email:</strong> b@y.org\<newline>                </li>\<newline>                <li>\<newline>                    <strong>City:</strong> D\<newline>                </li>\<newline>            </ul>\<newline>        </div>\<newline>    ''\<close>
    by simp
  from w [THEN conjunct2, THEN conjunct2, THEN mp, OF h3, THEN conjunct1]
  have cnt: "count_cards
        (usersContainer_innerHTML
        (snd (displayUsers (JArray [example_user ''A'' ''a@x.com'' ''C'', example_user ''B'' ''b@y.org'' ''D''])
                example_page))) = 2"
    by simp
  from h1 h2 out cnt show ?thesis by (intro conjI)
qed

text \<open>
  Claim C3 as stated fails where a string carries markup. The one user whose city is
  \<open>markup_city\<close> is rendered to the very markup of the two users A and B: the container
  holds two cards for an array of one element.
\<close>

theorem displayUsers_card_count_counterexample:
  "[example_user ''A'' ''a@x.com'' markup_city] \<noteq> []
   \<and> list_all2 user_fields [example_user ''A'' ''a@x.com'' markup_city] [(''A'', ''a@x.com'', markup_city)]
   \<and> displayUsers (JArray [example_user ''A'' ''a@x.com'' markup_city]) example_page =
       displayUsers (JArray [example_user ''A'' ''a@x.com'' ''C'', example_user ''B'' ''b@y.org'' ''D'']) example_page
   \<and> count_cards
        (usersContainer_innerHTML (snd (displayUsers (JArray [example_user ''A'' ''a@x.com'' markup_city]) example_page))) = 2
   \<and> count_cards
        (usersContainer_innerHTML (snd (displayUsers (JArray [example_user ''A'' ''a@x.com'' markup_city]) example_page)))
       \<noteq> length [example_user ''A'' ''a@x.com'' markup_city]"
proof -
  have one: "displayUsers (JArray [example_user ''A'' ''a@x.com'' markup_city]) example_page =
      (Inr (), (clearError (hideLoading example_page))
         \<lparr>usersContainer_innerHTML :=
            card_template ''A'' ''a@x.com'' ''C'' @ card_template ''B'' ''b@y.org'' ''D''\<rparr>)"
    by (simp add: displayUsers_nonempty_array createUserCard_fields [OF user_fields_example]
          markup_city_card)
  have two: "displayUsers (JArray [example_user ''A'' ''a@x.com'' ''C'', example_user ''B'' ''b@y.org'' ''D'']) example_page =
      (Inr (), (clearError (hideLoading example_page))
         \<lparr>usersContainer_innerHTML :=
            card_template ''A'' ''a@x.com'' ''C'' @ card_template ''B'' ''b@y.org'' ''D''\<rparr>)"
    by (simp add: displayUsers_nonempty_array createUserCard_fields [OF user_fields_example])
  have cnt: "count_cards
      (card_template ''A'' ''a@x.com'' ''C'' @ card_template ''B'' ''b@y.org'' ''D'') = 2"
    using count_cards_card [where n = "''B''" and e = "''b@y.org''" and c = "''D''" and ys = "[]"]
    by (simp add: count_cards_card)
  show ?thesis
    by (simp add: one two cnt)
qed

text \<open>
  Claim C10. For every user value whose \<^verbatim>\<open>name\<close>, \<^verbatim>\<open>email\<close> and \<^verbatim>\<open>address.city\<close> are
  strings, \<^verbatim>\<open>createUserCard\<close> returns exactly the fixed text of its template with the
  three strings put in as they are, whatever characters they hold.
\<close>

theorem createUserCard_fills_template:
  assumes "get user ''name'' = Inr (JString n)"
    and "get user ''email'' = Inr (JString e)"
    and "get user ''address'' = Inr a"
    and "get a ''city'' = Inr (JString c)"
  shows \<open>createUserCard user =
           Inr (''\<newline>        <div class="user-card">\<newline>            <h3 class="user-name">'' @ n @
                ''</h3>\<newline>            <ul class="user-details">\<newline>                <li>\<newline>                    <strong>Email:</strong> '' @ e @
                ''\<newline>                </li>\<newline>                <li>\<newline>                    <strong>City:</strong> '' @ c @
                ''\<newline>                </li>\<newline>            </ul>\<newline>        </div>\<newline>    '')\<close>
  using assms by (simp add: createUserCard_def card_template_def)

theorem createUserCard_fills_template_witness:
  \<open>get (example_user ''<b>A&B</b>'' ''<script>'' ''&lt;'') ''name'' = Inr (JString ''<b>A&B</b>'')
   \<and> get (example_user ''<b>A&B</b>'' ''<script>'' ''&lt;'') ''email'' = Inr (JString ''<script>'')
   \<and> get (example_user ''<b>A&B</b>'' ''<script>'' ''&lt;'') ''address''
       = Inr (JObject [(''city'', JString ''&lt;'')])
   \<and> get (JObject [(''city'', JString ''&lt;'')]) ''city'' = Inr (JString ''&lt;'')
   \<and> createUserCard (example_user ''<b>A&B</b>'' ''<script>'' ''&lt;'') =
       Inr ''\<newline>        <div class="user-card">\<newline>            <h3 class="user-name"><b>A&B</b></h3>\<newline>            <ul class="user-details">\<newline>                <li>\<newline>                    <strong>Email:</strong> <script>\<newline>                </li>\<newline>                <li>\<newline>                    <strong>City:</strong> &lt;\<newline>                </li>\<newline>            </ul>\<newline>        </div>\<newline>    ''\<close>
proof -
  have h1: "get (example_user ''<b>A&B</b>'' ''<script>'' ''&lt;'') ''name''
            = Inr (JString ''<b>A&B</b>'')"
    by (simp add: example_user_def)
  have h2: "get (example_user ''<b>A&B</b>'' ''<script>'' ''&lt;'') ''email''
            = Inr (JString ''<script>'')"
    by (simp add: example_user_def)
  have h3: "get (example_user ''<b>A&B</b>'' ''<script>'' ''&lt;'') ''address''
            = Inr (JObject [(''city'', JString ''&lt;'')])"
    by (simp add: example_user_def)
  have h4: "get (JObject [(''city'', JString ''&lt;'')]) ''city'' = Inr (JString ''&lt;'')"
    by simp
  from createUserCard_fills_template [OF h1 h2 h3 h4]
  have r: \<open>createUserCard (example_user ''<b>A&B</b>'' ''<script>'' ''&lt;'') =
       Inr ''\<newline>        <div class="user-card">\<newline>            <h3 class="user-name"><b>A&B</b></h3>\<newline>            <ul class="user-details">\<newline>                <li>\<newline>                    <strong>Email:</strong> <script>\<newline>                </li>\<newline>                <li>\<newline>                    <strong>City:</strong> &lt;\<newline>                </li>\<newline>            </ul>\<newline>        </div>\<newline>    ''\<close>
    by simp
  from h1 h2 h3 h4 r show ?thesis by (intro conjI)
qed

subsection \<open>Failures of the fetch\<close>

text \<open>
  Claim C1. Whenever the request cannot complete, or the response has a status code
  outside 200 to 299, or its body does not parse, the \<^verbatim>\<open>try\<close> block of \<^verbatim>\<open>fetchUsers\<close>
  throws and \<^verbatim>\<open>fetchUsers\<close> itself returns normally with \<^verbatim>\<open>SAMPLE_USERS\<close>, the array
  of the three users with ids 1, 2, 3 named Leanne Graham, Ervin Howell and Clementine
  Bauch.
\<close>

theorem fetchUsers_failure_returns_SAMPLE_USERS:
  assumes "(\<exists>err. fetch API_URL = Inl err) \<or>
           (\<exists>r. fetch API_URL = Inr r \<and>
                (status r < 200 \<or> 299 < status r \<or> (\<exists>err. json r = Inl err)))"
  shows "(\<exists>err. fst (fetchUsers_try fetch s) = Inl err)
         \<and> fst (fetchUsers fetch s) = Inr SAMPLE_USERS
         \<and> (case SAMPLE_USERS of
               JArray us \<Rightarrow>
                 map (\<lambda>u. (get u ''id'', get u ''name'')) us =
                   [(Inr (JNumber ''1''), Inr (JString ''Leanne Graham'')),
                    (Inr (JNumber ''2''), Inr (JString ''Ervin Howell'')),
                    (Inr (JNumber ''3''), Inr (JString ''Clementine Bauch''))]
             | _ \<Rightarrow> False)"
proof -
  from assms have "\<exists>err. fetchUsers_try fetch s = (Inl err, showLoading s)"
    by (rule fetchUsers_try_failure)
  then obtain err where t: "fetchUsers_try fetch s = (Inl err, showLoading s)" by blast
  then have "fst (fetchUsers fetch s) = Inr SAMPLE_USERS"
    by (simp add: fetchUsers_catch)
  moreover from t have "\<exists>err. fst (fetchUsers_try fetch s) = Inl err" by simp
  moreover have "case SAMPLE_USERS of
               JArray us \<Rightarrow>
                 map (\<lambda>u. (get u ''id'', get u ''name'')) us =
                   [(Inr (JNumber ''1''), Inr (JString ''Leanne Graham'')),
                    (Inr (JNumber ''2''), Inr (JString ''Ervin Howell'')),
                    (Inr (JNumber ''3''), Inr (JString ''Clementine Bauch''))]
             | _ \<Rightarrow> False"
    by (simp add: SAMPLE_USERS_def)
  ultimately show ?thesis by (intro conjI)
qed

theorem fetchUsers_failure_returns_SAMPLE_USERS_witness:
  "((\<exists>err. responds 200 (Inl (SyntaxError ''Unexpected end of JSON input'')) API_URL = Inl err) \<or>
    (\<exists>r. responds 200 (Inl (SyntaxError ''Unexpected end of JSON input'')) API_URL = Inr r \<and>
         (status r < 200 \<or> 299 < status r \<or> (\<exists>err. json r = Inl err))))
   \<and> fst (fetchUsers (responds 200 (Inl (SyntaxError ''Unexpected end of JSON input'')))
            example_page) = Inr SAMPLE_USERS"
proof -
  have h: "(\<exists>err. responds 200 (Inl (SyntaxError ''Unexpected end of JSON input'')) API_URL = Inl err) \<or>
    (\<exists>r. responds 200 (Inl (SyntaxError ''Unexpected end of JSON input'')) API_URL = Inr r \<and>
         (status r < 200 \<or> 299 < status r \<or> (\<exists>err. json r = Inl err)))"
    by (simp add: responds_def)
  from h have "fst (fetchUsers (responds 200 (Inl (SyntaxError ''Unexpected end of JSON input'')))
            example_page) = Inr SAMPLE_USERS"
    by (rule fetchUsers_failure_returns_SAMPLE_USERS [THEN conjunct2, THEN conjunct1])
  with h show ?thesis by (intro conjI)
qed

text \<open>
  Claim C5. For every response whose status code lies outside 200 to 299, the \<^verbatim>\<open>try\<close>
  block of \<^verbatim>\<open>fetchUsers\<close> throws an error whose message ends with the status code in
  decimal; \<^verbatim>\<open>fetchUsers\<close> returns \<^verbatim>\<open>SAMPLE_USERS\<close> whatever the body is, shows the banner
  with that message embedded, and logs the error.
\<close>

theorem fetchUsers_non_2xx_is_failure:
  assumes "fetch API_URL = Inr r" and "status r < 200 \<or> 299 < status r"
  shows "fetchUsers_try fetch s =
           (Inl (Error (''HTTP error! Status: '' @ decimal (status r))), showLoading s)
         \<and> fst (fetchUsers fetch s) = Inr SAMPLE_USERS
         \<and> errorMessage_textContent (snd (fetchUsers fetch s)) =
             ''Failed to fetch users: HTTP error! Status: '' @ decimal (status r)
               @ ''. Showing sample data.''
         \<and> error_visible (snd (fetchUsers fetch s))
         \<and> console (snd (fetchUsers fetch s)) =
             console s @ [(''Error fetching users:'',
                           Error (''HTTP error! Status: '' @ decimal (status r)))]"
proof -
  from assms have t: "fetchUsers_try fetch s =
           (Inl (Error (''HTTP error! Status: '' @ decimal (status r))), showLoading s)"
    by (auto simp: fetchUsers_try_def ok_def Let_def)
  show ?thesis
    by (simp add: t fetchUsers_catch [OF t] state_simps error_visible_def)
qed

theorem fetchUsers_non_2xx_is_failure_witness:
  "responds 404 (Inr (JArray [example_user ''A'' ''a@x.com'' ''C''])) API_URL =
     Inr \<lparr>status = 404, json = Inr (JArray [example_user ''A'' ''a@x.com'' ''C''])\<rparr>
   \<and> (status \<lparr>status = 404, json = Inr (JArray [example_user ''A'' ''a@x.com'' ''C''])\<rparr> < 200
        \<or> 299 < status \<lparr>status = 404, json = Inr (JArray [example_user ''A'' ''a@x.com'' ''C''])\<rparr>)
   \<and> fst (fetchUsers (responds 404 (Inr (JArray [example_user ''A'' ''a@x.com'' ''C''])))
            example_page) = Inr SAMPLE_USERS
   \<and> errorMessage_textContent
        (snd (fetchUsers (responds 404 (Inr (JArray [example_user ''A'' ''a@x.com'' ''C''])))
                example_page)) =
       ''Failed to fetch users: HTTP error! Status: 404. Showing sample data.''"
proof -
  have h1: "responds 404 (Inr (JArray [example_user ''A'' ''a@x.com'' ''C''])) API_URL =
     Inr \<lparr>status = 404, json = Inr (JArray [example_user ''A'' ''a@x.com'' ''C''])\<rparr>"
    by (simp add: responds_def)
  have h2: "status \<lparr>status = 404, json = Inr (JArray [example_user ''A'' ''a@x.com'' ''C''])\<rparr> < 200
        \<or> 299 < status \<lparr>status = 404, json = Inr (JArray [example_user ''A'' ''a@x.com'' ''C''])\<rparr>"
    by simp
  note w = fetchUsers_non_2xx_is_failure
    [where fetch = "responds 404 (Inr (JArray [example_user ''A'' ''a@x.com'' ''C'']))"
       and s = example_page, OF h1 h2]
  from w have r: "fst (fetchUsers (responds 404 (Inr (JArray [example_user ''A'' ''a@x.com'' ''C''])))
            example_page) = Inr SAMPLE_USERS"
    by (rule conjunct2 [THEN conjunct1])
  from w have m: "errorMessage_textContent
        (snd (fetchUsers (responds 404 (Inr (JArray [example_user ''A'' ''a@x.com'' ''C''])))
                example_page)) =
       ''Failed to fetch users: HTTP error! Status: 404. Showing sample data.''"
    by (simp add: decimal.simps)
  from h1 h2 r m show ?thesis by (intro conjI)
qed

text \<open>
  Claim C2, at the endpoint that answers with status 500. \<^verbatim>\<open>fetchUsers\<close> sets the banner
  text that mentions status 500, and the \<^verbatim>\<open>displayUsers\<close> call that follows hides the
  banner and empties its text: when the click handler is done, the three fallback cards
  are in the container and no banner is shown.
\<close>

theorem handleFetchUsers_http_500_clears_banner:
  "fst (handleFetchUsers (responds 500 body) s) = Inr ()
   \<and> errorMessage_textContent (snd (fetchUsers (responds 500 body) s)) =
       ''Failed to fetch users: HTTP error! Status: 500. Showing sample data.''
   \<and> \<not> error_visible (snd (handleFetchUsers (responds 500 body) s))
   \<and> errorMessage_textContent (snd (handleFetchUsers (responds 500 body) s)) = []
   \<and> usersContainer_innerHTML (snd (handleFetchUsers (responds 500 body) s)) =
       card_template ''Leanne Graham'' ''Sincere@april.biz'' ''Gwenborough'' @
       card_template ''Ervin Howell'' ''Shanna@melissa.tv'' ''Wisokyburgh'' @
       card_template ''Clementine Bauch'' ''Nathan@yesenia.net'' ''McKenziehaven''"
proof -
  have t: "fetchUsers_try (responds 500 body) s =
             (Inl (Error ''HTTP error! Status: 500''), showLoading s)"
    by (simp add: fetchUsers_try_def responds_def ok_def Let_def decimal.simps)
  note f = fetchUsers_catch [OF t]
  show ?thesis
    by (simp add: handleFetchUsers_def handleFetchUsers_try_def f displayUsers_SAMPLE_USERS
          state_simps error_visible_def)
qed

subsection \<open>The empty result\<close>

text \<open>
  Claim C4. When the response is a success whose body parses to the empty array,
  \<^verbatim>\<open>fetchUsers\<close> returns that array, and after the click handler the container holds no
  card, the banner is shown with the text \<^verbatim>\<open>No users found.\<close>, and the loading
  indicator is hidden.
\<close>

theorem handleFetchUsers_empty_result:
  assumes "fetch API_URL = Inr r" and "ok r" and "json r = Inr (JArray [])"
  shows "fst (fetchUsers fetch s) = Inr (JArray [])
         \<and> fst (handleFetchUsers fetch s) = Inr ()
         \<and> usersContainer_innerHTML (snd (handleFetchUsers fetch s)) = []
         \<and> errorMessage_textContent (snd (handleFetchUsers fetch s)) = ''No users found.''
         \<and> error_visible (snd (handleFetchUsers fetch s))
         \<and> \<not> loading_visible (snd (handleFetchUsers fetch s))"
proof -
  from assms have t: "fetchUsers_try fetch s = (Inr (JArray []), showLoading s)"
    by (simp add: fetchUsers_try_def Let_def)
  have d: "displayUsers (JArray []) (showLoading s) =
             (Inr (), displayError ''No users found.'' (clearError (hideLoading (showLoading s))))"
    by (simp add: displayUsers_def Let_def decimal.simps)
  have h: "handleFetchUsers fetch s =
             (Inr (), displayError ''No users found.'' (clearError (hideLoading (showLoading s))))"
    by (simp add: handleFetchUsers_def handleFetchUsers_try_def fetchUsers_pass [OF t] d)
  show ?thesis
    by (simp add: h fetchUsers_pass [OF t] state_simps error_visible_def loading_visible_def)
qed

theorem handleFetchUsers_empty_result_witness:
  "responds 200 (Inr (JArray [])) API_URL = Inr \<lparr>status = 200, json = Inr (JArray [])\<rparr>
   \<and> ok \<lparr>status = 200, json = Inr (JArray [])\<rparr>
   \<and> json \<lparr>status = 200, json = Inr (JArray [])\<rparr> = Inr (JArray [])
   \<and> usersContainer_innerHTML (snd (handleFetchUsers (responds 200 (Inr (JArray []))) example_page)) = []
   \<and> errorMessage_textContent (snd (handleFetchUsers (responds 200 (Inr (JArray []))) example_page))
       = ''No users found.''
   \<and> error_visible (snd (handleFetchUsers (responds 200 (Inr (JArray []))) example_page))"
proof -
  have h1: "responds 200 (Inr (JArray [])) API_URL = Inr \<lparr>status = 200, json = Inr (JArray [])\<rparr>"
    by (simp add: responds_def)
  have h2: "ok \<lparr>status = 200, json = Inr (JArray [])\<rparr>"
    by (simp add: ok_def)
  have h3: "json \<lparr>status = 200, json = Inr (JArray [])\<rparr> = Inr (JArray [])"
    by simp
  note w = handleFetchUsers_empty_result
    [where fetch = "responds 200 (Inr (JArray []))" and s = example_page, OF h1 h2 h3]
  from h1 h2 h3 w show ?thesis by (intro conjI) simp_all
qed

subsection \<open>The click handler as a whole\<close>

text \<open>
  Claim C6. \<^verbatim>\<open>handleFetchUsers\<close> always returns normally. Whenever its \<^verbatim>\<open>try\<close> block
  throws, the error is logged, the banner is shown with the text
  \<^verbatim>\<open>An unexpected error occurred. Please try again.\<close>, and the loading indicator is
  hidden; an error thrown by \<^verbatim>\<open>displayUsers\<close> on the fetched value is such a throw of
  the \<^verbatim>\<open>try\<close> block.
\<close>

theorem handleFetchUsers_catches_everything:
  "fst (handleFetchUsers fetch s) = Inr ()
   \<and> (\<forall>err s1. handleFetchUsers_try fetch s = (Inl err, s1) \<longrightarrow>
         snd (handleFetchUsers fetch s) =
           displayError ''An unexpected error occurred. Please try again.''
             (console_error ''Unexpected error:'' err s1)
         \<and> errorMessage_textContent (snd (handleFetchUsers fetch s)) =
             ''An unexpected error occurred. Please try again.''
         \<and> error_visible (snd (handleFetchUsers fetch s))
         \<and> \<not> loading_visible (snd (handleFetchUsers fetch s)))
   \<and> (\<forall>users s0 err s1. fetchUsers fetch s = (Inr users, s0) \<longrightarrow>
         displayUsers users s0 = (Inl err, s1) \<longrightarrow>
         handleFetchUsers_try fetch s = (Inl err, s1))"
proof (intro conjI allI impI)
  show "fst (handleFetchUsers fetch s) = Inr ()" by (rule handleFetchUsers_returns)
next
  fix err s1
  assume t: "handleFetchUsers_try fetch s = (Inl err, s1)"
  note h = handleFetchUsers_catch [OF t]
  show "snd (handleFetchUsers fetch s) =
           displayError ''An unexpected error occurred. Please try again.''
             (console_error ''Unexpected error:'' err s1)"
    by (simp add: h)
  show "errorMessage_textContent (snd (handleFetchUsers fetch s)) =
             ''An unexpected error occurred. Please try again.''"
    by (simp add: h state_simps)
  show "error_visible (snd (handleFetchUsers fetch s))"
    by (simp add: h state_simps error_visible_def)
  show "\<not> loading_visible (snd (handleFetchUsers fetch s))"
    by (simp add: h state_simps loading_visible_def)
next
  fix users s0 err s1
  assume "fetchUsers fetch s = (Inr users, s0)" and "displayUsers users s0 = (Inl err, s1)"
  then show "handleFetchUsers_try fetch s = (Inl err, s1)"
    by (simp add: handleFetchUsers_try_def)
qed


theorem handleFetchUsers_catches_everything_witness:
  "handleFetchUsers_try (responds 200 (Inr (JArray [JNull]))) example_page =
     (Inl (TypeError (''Cannot read properties of null (reading '' @ [CHR 0x27] @ ''name'' @ [CHR 0x27] @ '')'')),
      clearError (hideLoading (showLoading example_page)))
   \<and> fst (handleFetchUsers (responds 200 (Inr (JArray [JNull]))) example_page) = Inr ()
   \<and> errorMessage_textContent
        (snd (handleFetchUsers (responds 200 (Inr (JArray [JNull]))) example_page)) =
       ''An unexpected error occurred. Please try again.''
   \<and> error_visible (snd (handleFetchUsers (responds 200 (Inr (JArray [JNull]))) example_page))"
proof -
  have h: "handleFetchUsers_try (responds 200 (Inr (JArray [JNull]))) example_page =
     (Inl (TypeError (''Cannot read properties of null (reading '' @ [CHR 0x27] @ ''name'' @ [CHR 0x27] @ '')'')),
      clearError (hideLoading (showLoading example_page)))"
    by (simp add: handleFetchUsers_try_def fetchUsers_def fetchUsers_try_def responds_def
          ok_def Let_def displayUsers_nonempty_array createUserCard_def)
  note w = handleFetchUsers_catches_everything
    [where fetch = "responds 200 (Inr (JArray [JNull]))" and s = example_page]
  from w have r: "fst (handleFetchUsers (responds 200 (Inr (JArray [JNull]))) example_page) = Inr ()"
    by (rule conjunct1)
  from w [THEN conjunct2, THEN conjunct1, rule_format, OF h]
  have "errorMessage_textContent
        (snd (handleFetchUsers (responds 200 (Inr (JArray [JNull]))) example_page)) =
       ''An unexpected error occurred. Please try again.''
     \<and> error_visible (snd (handleFetchUsers (responds 200 (Inr (JArray [JNull]))) example_page))"
    by blast
  with h r show ?thesis by blast
qed

text \<open>
  Claim C7. Running the click handler a second time, on the page the first run left and
  against an endpoint that answers as before, leaves the same class lists, the same
  banner text and the same container markup as the first run did.
\<close>

theorem handleFetchUsers_idempotent:
  "rendered (snd (handleFetchUsers fetch (snd (handleFetchUsers fetch s)))) =
   rendered (snd (handleFetchUsers fetch s))"
proof -
  from handleFetchUsers_rendered [of fetch]
  obtain vis t h where r: "\<And>s. rendered (snd (handleFetchUsers fetch s)) =
     (insert ''hidden'' (loading_classList s),
      (if vis then errorMessage_classList s - {''hidden''}
       else insert ''hidden'' (errorMessage_classList s)),
      t, h)"
    by blast
  have l: "loading_classList (snd (handleFetchUsers fetch s)) = insert ''hidden'' (loading_classList s)"
    and e: "errorMessage_classList (snd (handleFetchUsers fetch s)) =
       (if vis then errorMessage_classList s - {''hidden''}
        else insert ''hidden'' (errorMessage_classList s))"
    using r [of s] by (simp_all add: rendered_def)
  show ?thesis
    unfolding r [of "snd (handleFetchUsers fetch s)"] r [of s] l e
    by auto
qed


text \<open>
  Claim C8. \<^verbatim>\<open>displayUsers\<close> on a non-empty array leaves the banner hidden and its text
  empty, from every page state, in particular from one in which an error has just been
  displayed. On the failure path of \<^verbatim>\<open>fetchUsers\<close> the banner is shown when
  \<^verbatim>\<open>fetchUsers\<close> returns, and hidden and empty when the click handler is done.
\<close>

theorem displayUsers_nonempty_clears_error:
  "(xs \<noteq> [] \<longrightarrow>
      \<not> error_visible (snd (displayUsers (JArray xs) s))
      \<and> errorMessage_textContent (snd (displayUsers (JArray xs) s)) = []
      \<and> \<not> error_visible (snd (displayUsers (JArray xs) (displayError m s)))
      \<and> errorMessage_textContent (snd (displayUsers (JArray xs) (displayError m s))) = [])
   \<and> (\<forall>err s1. fetchUsers_try fetch s = (Inl err, s1) \<longrightarrow>
        error_visible (snd (fetchUsers fetch s))
        \<and> \<not> error_visible (snd (handleFetchUsers fetch s))
        \<and> errorMessage_textContent (snd (handleFetchUsers fetch s)) = [])"
proof (intro conjI allI impI)
  fix err s1
  assume t: "fetchUsers_try fetch s = (Inl err, s1)"
  note f = fetchUsers_catch [OF t]
  show "error_visible (snd (fetchUsers fetch s))"
    by (simp add: f state_simps error_visible_def)
  have h: "handleFetchUsers fetch s = displayUsers SAMPLE_USERS (snd (fetchUsers fetch s))"
    by (simp add: handleFetchUsers_def handleFetchUsers_try_def f displayUsers_SAMPLE_USERS)
  show "\<not> error_visible (snd (handleFetchUsers fetch s))"
    by (simp add: h displayUsers_SAMPLE_USERS state_simps error_visible_def)
  show "errorMessage_textContent (snd (handleFetchUsers fetch s)) = []"
    by (simp add: h displayUsers_SAMPLE_USERS state_simps)
next
  assume ne: "xs \<noteq> []"
  have a: "errorMessage_classList (snd (displayUsers (JArray xs) s')) =
             insert ''hidden'' (errorMessage_classList s')
           \<and> errorMessage_textContent (snd (displayUsers (JArray xs) s')) = []" for s'
    using ne by (simp add: displayUsers_nonempty_array state_simps split: sum.splits)
  show "\<not> error_visible (snd (displayUsers (JArray xs) s))"
    by (simp add: a error_visible_def)
  show "errorMessage_textContent (snd (displayUsers (JArray xs) s)) = []"
    by (simp add: a)
  show "\<not> error_visible (snd (displayUsers (JArray xs) (displayError m s)))"
    by (simp add: a error_visible_def)
  show "errorMessage_textContent (snd (displayUsers (JArray xs) (displayError m s))) = []"
    by (simp add: a)
qed

theorem displayUsers_nonempty_clears_error_witness:
  "[example_user ''A'' ''a@x.com'' ''C''] \<noteq> []
   \<and> fetchUsers_try (responds 503 (Inr JNull)) example_page =
       (Inl (Error ''HTTP error! Status: 503''), showLoading example_page)
   \<and> \<not> error_visible
         (snd (displayUsers (JArray [example_user ''A'' ''a@x.com'' ''C''])
                 (displayError ''Failed'' example_page)))
   \<and> error_visible (snd (fetchUsers (responds 503 (Inr JNull)) example_page))
   \<and> \<not> error_visible (snd (handleFetchUsers (responds 503 (Inr JNull)) example_page))"
proof -
  have h1: "[example_user ''A'' ''a@x.com'' ''C''] \<noteq> []" by simp
  have h2: "fetchUsers_try (responds 503 (Inr JNull)) example_page =
       (Inl (Error ''HTTP error! Status: 503''), showLoading example_page)"
    by (simp add: fetchUsers_try_def responds_def ok_def Let_def decimal.simps)
  note w = displayUsers_nonempty_clears_error
    [where xs = "[example_user ''A'' ''a@x.com'' ''C'']" and s = example_page
       and m = "''Failed''" and fetch = "responds 503 (Inr JNull)"]
  from w [THEN conjunct1, rule_format, OF h1]
  have a: "\<not> error_visible
         (snd (displayUsers (JArray [example_user ''A'' ''a@x.com'' ''C''])
                 (displayError ''Failed'' example_page)))"
    by simp
  from w [THEN conjunct2, rule_format, OF h2]
  have b: "error_visible (snd (fetchUsers (responds 503 (Inr JNull)) example_page))
     \<and> \<not> error_visible (snd (handleFetchUsers (responds 503 (Inr JNull)) example_page))"
    by simp
  from h1 h2 a b show ?thesis by (intro conjI) simp_all
qed

text \<open>
  Claim C9. The loading indicator is hidden in the state \<^verbatim>\<open>displayError\<close> leaves, in
  the state \<^verbatim>\<open>displayUsers\<close> leaves (whether it returns or throws), and in the state the
  click handler leaves: it is never shown together with the final banner or cards.
\<close>

theorem loading_hidden_after_output:
  "\<not> loading_visible (displayError m s)
   \<and> \<not> loading_visible (snd (displayUsers users s))
   \<and> \<not> loading_visible (snd (handleFetchUsers fetch s))"
proof (intro conjI)
  show "\<not> loading_visible (displayError m s)"
    by (simp add: loading_visible_def state_simps)
  show "\<not> loading_visible (snd (displayUsers users s))"
    by (simp add: loading_visible_def displayUsers_loading)
  from handleFetchUsers_rendered [of fetch]
  have "loading_classList (snd (handleFetchUsers fetch s)) = insert ''hidden'' (loading_classList s)"
    by (auto simp: rendered_def)
  then show "\<not> loading_visible (snd (handleFetchUsers fetch s))"
    by (simp add: loading_visible_def)
qed


end
